theory Spec2Isabelle
  imports Main "HOL-Library.Sublist"
begin

section \<open>Python values, exceptions and call results\<close>

text \<open>
  The adapter module \<^verbatim>\<open>monitor_compact.py\<close> forwards every call to the module
  \<^verbatim>\<open>monitor\<close> and turns what that module raises into the values older callers expect.
  The values that cross the boundary are Python objects; the ones the adapter builds or
  inspects are strings, \<^verbatim>\<open>None\<close>, booleans, integers, lists, tuples and dicts. Anything
  else (a function, a module, a response object) is an opaque object: it has no length
  and no \<^verbatim>\<open>get\<close> method.

  A value that a call hands over is written by its contents: the adapter looks at it, if
  at all, before the collaborator runs again. An object that the adapter keeps is
  different. The assignment \<^verbatim>\<open>final_job_list = monitor.final_job_list\<close> binds the adapter's
  name to the collaborator's own object, and if that object is a list or a dict the
  collaborator can change it in place later. \<open>PRef a\<close> is such an object: a mutable
  object of the collaborator, known by its address \<open>a\<close>, whose present contents only the
  collaborator's state tells.
\<close>

datatype pyval =
    PNone
  | PBool bool
  | PInt int
  | PStr string
  | PList "pyval list"
  | PTuple "pyval list"
  | PDict "(pyval \<times> pyval) list"
  | PObject string
  | PRef nat

text \<open>
  Modelled from the spec: the exception classes \<^verbatim>\<open>ProwTimeoutError\<close>,
  \<^verbatim>\<open>ProwFetchError\<close> and \<^verbatim>\<open>ProwParseError\<close> are declared in the module
  \<^verbatim>\<open>monitor\<close>, whose source is not part of the adapter. The spec's taxonomy has four
  disjoint kinds (timeout, fetch, parse, unclassified); the three named classes are the
  first three constructors, each carrying its message, and every other instance of
  \<^verbatim>\<open>Exception\<close> is unclassified: the \<^verbatim>\<open>RuntimeError\<close> the adapter itself raises, the
  \<^verbatim>\<open>TypeError\<close> of \<^verbatim>\<open>len\<close>, the \<^verbatim>\<open>AttributeError\<close> of a missing attribute, and any
  other class.
\<close>

datatype exc =
    ProwTimeoutError string
  | ProwFetchError string
  | ProwParseError string
  | RuntimeError string
  | TypeError
  | AttributeError
  | OtherException string

text \<open>Evaluating a Python expression either returns a value or raises.\<close>

datatype 'a result = Return 'a | Raise exc

type_synonym outcome = "pyval result"

fun is_return :: "'a result \<Rightarrow> bool" where
  "is_return (Return v) = True"
| "is_return (Raise e) = False"

section \<open>The collaborator and the adapter's module state\<close>

text \<open>
  The module \<^verbatim>\<open>monitor\<close> is a parameter. It has a state of its own (its globals, the
  network behind it), of any type \<open>'c\<close>. Calling \<^verbatim>\<open>monitor.name(*args, **kwargs)\<close> in a
  state gives an outcome and the next state; reading \<^verbatim>\<open>monitor.name\<close> gives the
  attribute or raises; \<open>deref a c\<close> is what the mutable object at address \<open>a\<close> holds in
  state \<open>c\<close>, if there is such an object.
\<close>

record 'c collaborator =
  call :: "string \<Rightarrow> pyval list \<Rightarrow> (string \<times> pyval) list \<Rightarrow> 'c \<Rightarrow> outcome \<times> 'c"
  getattr :: "string \<Rightarrow> 'c \<Rightarrow> outcome"
  deref :: "nat \<Rightarrow> 'c \<Rightarrow> pyval option"

text \<open>
  The adapter's two module globals, \<^verbatim>\<open>PROW_URL\<close> and \<^verbatim>\<open>final_job_list\<close>, together with
  the collaborator's state.
\<close>

record 'c world =
  PROW_URL :: pyval
  final_job_list :: pyval
  monitor_state :: 'c

definition invoke ::
  "'c collaborator \<Rightarrow> string \<Rightarrow> pyval list \<Rightarrow> (string \<times> pyval) list \<Rightarrow> 'c world
    \<Rightarrow> outcome \<times> 'c world" where
  "invoke m name args kwargs w =
     (case call m name args kwargs (monitor_state w) of
        (r, c) \<Rightarrow> (r, w\<lparr>monitor_state := c\<rparr>))"

text \<open>
  What a caller sees when it looks at a value while the collaborator is in state \<open>c\<close>:
  the value itself, or for a shared object its present contents.
\<close>

definition observe :: "'c collaborator \<Rightarrow> 'c \<Rightarrow> pyval \<Rightarrow> pyval" where
  "observe m c v =
     (case v of
        PRef a \<Rightarrow> (case deref m a c of Some x \<Rightarrow> x | None \<Rightarrow> v)
      | _ \<Rightarrow> v)"

fun held_by_value :: "pyval \<Rightarrow> bool" where
  "held_by_value (PRef a) = False"
| "held_by_value v = True"

text \<open>A parameter with the default \<^verbatim>\<open>None\<close>: the caller may leave it out.\<close>

fun default_none :: "pyval option \<Rightarrow> pyval" where
  "default_none None = PNone"
| "default_none (Some v) = v"

section \<open>Attribute mirroring at module load\<close>

text \<open>
  \<^verbatim>\<open>_sync_module_attrs\<close>: each global is assigned the collaborator's attribute, or its
  default when reading the attribute raises. The function ends without a \<^verbatim>\<open>return\<close>, so
  its value is \<^verbatim>\<open>None\<close>.
\<close>

definition sync_module_attrs :: "'c collaborator \<Rightarrow> 'c world \<Rightarrow> outcome \<times> 'c world" where
  "sync_module_attrs m w =
     (let w1 = (case getattr m ''PROW_URL'' (monitor_state w) of
                  Return v \<Rightarrow> w\<lparr>PROW_URL := v\<rparr>
                | Raise e \<Rightarrow> w\<lparr>PROW_URL := PNone\<rparr>);
          w2 = (case getattr m ''final_job_list'' (monitor_state w1) of
                  Return v \<Rightarrow> w1\<lparr>final_job_list := v\<rparr>
                | Raise e \<Rightarrow> w1\<lparr>final_job_list := PList []\<rparr>)
      in (Return PNone, w2))"

text \<open>
  Loading the module: both globals are bound to \<^verbatim>\<open>None\<close> (lines 11 and 12), then
  \<^verbatim>\<open>_sync_module_attrs()\<close> runs once (line 26). The statements after it are function
  definitions.
\<close>

definition module_load :: "'c collaborator \<Rightarrow> 'c \<Rightarrow> outcome \<times> 'c world" where
  "module_load m c =
     sync_module_attrs m \<lparr>PROW_URL = PNone, final_job_list = PNone, monitor_state = c\<rparr>"

section \<open>Error mapping\<close>

text \<open>\<^verbatim>\<open>_err_str_from_exc\<close>: the chain of \<^verbatim>\<open>isinstance\<close> tests, in the source's order.\<close>

fun err_str_from_exc :: "exc \<Rightarrow> string" where
  "err_str_from_exc (ProwTimeoutError msg) = ''Request timed out''"
| "err_str_from_exc (ProwFetchError msg) = ''Error while sending request to url''"
| "err_str_from_exc (ProwParseError msg) = ''ERROR''"
| "err_str_from_exc e = ''ERROR''"

section \<open>Wrapped functions\<close>

definition fetch_release_date ::
  "'c collaborator \<Rightarrow> string \<Rightarrow> 'c world \<Rightarrow> outcome \<times> 'c world" where
  "fetch_release_date m release w =
     (case invoke m ''fetch_release_date'' [PStr release] [] w of
        (Return v, w') \<Rightarrow> (Return v, w')
      | (Raise e, w') \<Rightarrow> (Return (PStr (err_str_from_exc e)), w'))"

definition fetch_build_time ::
  "'c collaborator \<Rightarrow> string \<Rightarrow> 'c world \<Rightarrow> outcome \<times> 'c world" where
  "fetch_build_time m url w =
     (case invoke m ''fetch_build_time'' [PStr url] [] w of
        (Return v, w') \<Rightarrow> (Return v, w')
      | (Raise e, w') \<Rightarrow> (Return (PStr (err_str_from_exc e)), w'))"

text \<open>The next five operations have no \<^verbatim>\<open>try\<close>: whatever the collaborator does, returning
  or raising, is the adapter's outcome. \<^verbatim>\<open>set_prow_url\<close>, \<^verbatim>\<open>load_config\<close> (``we will re-raise to
  keep behavior obvious''), \<^verbatim>\<open>get_current_date\<close>, \<^verbatim>\<open>parse_job_date\<close>; \<^verbatim>\<open>job_classifier\<close>
  (``stateless; just forward'') follows further down, in the source's order.\<close>

definition set_prow_url ::
  "'c collaborator \<Rightarrow> string \<Rightarrow> 'c world \<Rightarrow> outcome \<times> 'c world" where
  "set_prow_url m ci_job_type w = invoke m ''set_prow_url'' [PStr ci_job_type] [] w"

definition load_config ::
  "'c collaborator \<Rightarrow> string \<Rightarrow> 'c world \<Rightarrow> outcome \<times> 'c world" where
  "load_config m config_file w = invoke m ''load_config'' [PStr config_file] [] w"

definition get_current_date ::
  "'c collaborator \<Rightarrow> 'c world \<Rightarrow> outcome \<times> 'c world" where
  "get_current_date m w = invoke m ''get_current_date'' [] [] w"

definition parse_job_date ::
  "'c collaborator \<Rightarrow> string \<Rightarrow> 'c world \<Rightarrow> outcome \<times> 'c world" where
  "parse_job_date m date w = invoke m ''parse_job_date'' [PStr date] [] w"

definition get_jobs ::
  "'c collaborator \<Rightarrow> string \<Rightarrow> 'c world \<Rightarrow> outcome \<times> 'c world" where
  "get_jobs m prow_link w =
     (case invoke m ''get_jobs'' [PStr prow_link] [] w of
        (Return v, w') \<Rightarrow> (Return v, w')
      | (Raise e, w') \<Rightarrow> (Return (PStr (err_str_from_exc e)), w'))"

definition get_n_recent_jobs ::
  "'c collaborator \<Rightarrow> string \<Rightarrow> int \<Rightarrow> 'c world \<Rightarrow> outcome \<times> 'c world" where
  "get_n_recent_jobs m prow_link n w =
     (case invoke m ''get_n_recent_jobs'' [PStr prow_link, PInt n] [] w of
        (Return v, w') \<Rightarrow> (Return v, w')
      | (Raise e, w') \<Rightarrow> (Return (PStr (err_str_from_exc e)), w'))"

definition check_job_status ::
  "'c collaborator \<Rightarrow> string \<Rightarrow> 'c world \<Rightarrow> outcome \<times> 'c world" where
  "check_job_status m spy_link w =
     (case invoke m ''check_job_status'' [PStr spy_link] [] w of
        (Return v, w') \<Rightarrow> (Return v, w')
      | (Raise e, w') \<Rightarrow> (Return (PStr (err_str_from_exc e)), w'))"

definition cluster_deploy_status ::
  "'c collaborator \<Rightarrow> string \<Rightarrow> 'c world \<Rightarrow> outcome \<times> 'c world" where
  "cluster_deploy_status m spy_link w =
     (case invoke m ''cluster_deploy_status'' [PStr spy_link] [] w of
        (Return v, w') \<Rightarrow> (Return v, w')
      | (Raise e, w') \<Rightarrow> (Return (PStr (err_str_from_exc e)), w'))"

definition cluster_creation_error_analysis ::
  "'c collaborator \<Rightarrow> string \<Rightarrow> 'c world \<Rightarrow> outcome \<times> 'c world" where
  "cluster_creation_error_analysis m spylink w =
     (case invoke m ''cluster_creation_error_analysis'' [PStr spylink] [] w of
        (Return v, w') \<Rightarrow> (Return v, w')
      | (Raise e, w') \<Rightarrow> (Return (PStr (err_str_from_exc e)), w'))"

definition check_if_gather_libvirt_dir_exists ::
  "'c collaborator \<Rightarrow> string \<Rightarrow> string \<Rightarrow> 'c world \<Rightarrow> outcome \<times> 'c world" where
  "check_if_gather_libvirt_dir_exists m spy_link job_type w =
     (case invoke m ''check_if_gather_libvirt_dir_exists'' [PStr spy_link, PStr job_type] [] w of
        (Return v, w') \<Rightarrow> (Return v, w')
      | (Raise e, w') \<Rightarrow> (Return (PStr (err_str_from_exc e)), w'))"

definition check_hypervisor_error ::
  "'c collaborator \<Rightarrow> string \<Rightarrow> 'c world \<Rightarrow> outcome \<times> 'c world" where
  "check_hypervisor_error m spy_link w =
     (case invoke m ''check_hypervisor_error'' [PStr spy_link] [] w of
        (Return v, w') \<Rightarrow> (Return v, w')
      | (Raise e, w') \<Rightarrow> (Return (PStr (err_str_from_exc e)), w'))"

text \<open>
  The one handler that raises: every exception becomes a \<^verbatim>\<open>RuntimeError\<close> whose message is
  the f-string \<^verbatim>\<open>f"Error in check_if_sensitive_info_exposed: {_err_str_from_exc(e)}"\<close>.
\<close>

definition check_if_sensitive_info_exposed ::
  "'c collaborator \<Rightarrow> string \<Rightarrow> 'c world \<Rightarrow> outcome \<times> 'c world" where
  "check_if_sensitive_info_exposed m spy_link w =
     (case invoke m ''check_if_sensitive_info_exposed'' [PStr spy_link] [] w of
        (Return v, w') \<Rightarrow> (Return v, w')
      | (Raise e, w') \<Rightarrow>
          (Raise (RuntimeError (''Error in check_if_sensitive_info_exposed: '' @ err_str_from_exc e)), w'))"

definition get_node_status ::
  "'c collaborator \<Rightarrow> string \<Rightarrow> 'c world \<Rightarrow> outcome \<times> 'c world" where
  "get_node_status m spy_link w =
     (case invoke m ''get_node_status'' [PStr spy_link] [] w of
        (Return v, w') \<Rightarrow> (Return v, w')
      | (Raise e, w') \<Rightarrow> (Return (PStr (err_str_from_exc e)), w'))"

definition check_node_crash ::
  "'c collaborator \<Rightarrow> string \<Rightarrow> 'c world \<Rightarrow> outcome \<times> 'c world" where
  "check_node_crash m spy_link w =
     (case invoke m ''check_node_crash'' [PStr spy_link] [] w of
        (Return v, w') \<Rightarrow> (Return v, w')
      | (Raise e, w') \<Rightarrow> (Return (PStr (err_str_from_exc e)), w'))"

definition get_lease ::
  "'c collaborator \<Rightarrow> pyval \<Rightarrow> string \<Rightarrow> 'c world \<Rightarrow> outcome \<times> 'c world" where
  "get_lease m build_log_response job_platform w =
     (case invoke m ''get_lease'' [build_log_response, PStr job_platform] [] w of
        (Return v, w') \<Rightarrow> (Return v, w')
      | (Raise e, w') \<Rightarrow> (Return (PStr ''Failed to fetch lease information''), w'))"

definition get_nightly ::
  "'c collaborator \<Rightarrow> string \<Rightarrow> pyval \<Rightarrow> string \<Rightarrow> 'c world \<Rightarrow> outcome \<times> 'c world" where
  "get_nightly m build_log_url build_log_response job_platform w =
     (case invoke m ''get_nightly'' [PStr build_log_url, build_log_response, PStr job_platform] [] w of
        (Return v, w') \<Rightarrow> (Return v, w')
      | (Raise e, w') \<Rightarrow> (Return (PStr (''Unable to fetch nightly '' @ job_platform @ '' information - No match found'')), w'))"

definition get_quota_and_nightly ::
  "'c collaborator \<Rightarrow> string \<Rightarrow> 'c world \<Rightarrow> outcome \<times> 'c world" where
  "get_quota_and_nightly m spy_link w =
     (case invoke m ''get_quota_and_nightly'' [PStr spy_link] [] w of
        (Return v, w') \<Rightarrow> (Return v, w')
      | (Raise (ProwTimeoutError msg), w') \<Rightarrow>
          (Return (PTuple [PStr ''Request timed out'', PNone]), w')
      | (Raise (ProwFetchError msg), w') \<Rightarrow>
          (Return (PTuple [PStr ''Error while sending request to url'', PNone]), w')
      | (Raise e, w') \<Rightarrow>
          (Return (PTuple [PStr ''Failed to fetch lease information'', PNone]), w'))"

definition job_classifier ::
  "'c collaborator \<Rightarrow> string \<Rightarrow> 'c world \<Rightarrow> outcome \<times> 'c world" where
  "job_classifier m spy_link w = invoke m ''job_classifier'' [PStr spy_link] [] w"

subsection \<open>Failed-testcase extraction\<close>

text \<open>
  \<^verbatim>\<open>isinstance(x, tuple)\<close>, \<^verbatim>\<open>len(x)\<close> and \<^verbatim>\<open>x.get(key, default)\<close> on a Python value.
  \<^verbatim>\<open>len\<close> raises \<^verbatim>\<open>TypeError\<close> on a value without a length, \<^verbatim>\<open>.get\<close> raises
  \<^verbatim>\<open>AttributeError\<close> on anything that is not a dict.
\<close>

fun is_tuple :: "pyval \<Rightarrow> bool" where
  "is_tuple (PTuple xs) = True"
| "is_tuple v = False"

fun py_len :: "pyval \<Rightarrow> int result" where
  "py_len (PStr s) = Return (int (length s))"
| "py_len (PList xs) = Return (int (length xs))"
| "py_len (PTuple xs) = Return (int (length xs))"
| "py_len (PDict kvs) = Return (int (length kvs))"
| "py_len v = Raise TypeError"

fun py_get :: "pyval \<Rightarrow> pyval \<Rightarrow> pyval \<Rightarrow> outcome" where
  "py_get (PDict kvs) key dflt = Return (case map_of kvs key of Some v \<Rightarrow> v | None \<Rightarrow> dflt)"
| "py_get v key dflt = Raise AttributeError"

text \<open>
  \<^verbatim>\<open>get_failed_monitor_testcases\<close> looks at what it received: a tuple goes back as it
  is, anything else becomes the pair \<^verbatim>\<open>(tcs, None)\<close>.
\<close>

definition get_failed_monitor_testcases ::
  "'c collaborator \<Rightarrow> string \<Rightarrow> string \<Rightarrow> 'c world \<Rightarrow> outcome \<times> 'c world" where
  "get_failed_monitor_testcases m spy_link job_type w =
     (case invoke m ''get_failed_monitor_testcases'' [PStr spy_link, PStr job_type] [] w of
        (Return tcs, w') \<Rightarrow> (Return (if is_tuple tcs then tcs else PTuple [tcs, PNone]), w')
      | (Raise (ProwTimeoutError msg), w') \<Rightarrow>
          (Return (PTuple [PList [], PStr ''Request timed out'']), w')
      | (Raise (ProwFetchError msg), w') \<Rightarrow>
          (Return (PTuple [PList [], PStr ''Failed to get response from e2e-test directory url'']), w')
      | (Raise (ProwParseError msg), w') \<Rightarrow>
          (Return (PTuple [PList [], PStr ''Failed to parse the data from e2e-test log file!'']), w')
      | (Raise e, w') \<Rightarrow>
          (Return (PTuple [PList [], PStr ''Failed to parse the data from e2e-test log file!'']), w'))"

text \<open>The three siblings pair whatever they received with \<^verbatim>\<open>None\<close>, with no test.\<close>

definition get_failed_monitor_testcases_from_xml ::
  "'c collaborator \<Rightarrow> string \<Rightarrow> string \<Rightarrow> 'c world \<Rightarrow> outcome \<times> 'c world" where
  "get_failed_monitor_testcases_from_xml m spy_link job_type w =
     (case invoke m ''get_failed_monitor_testcases_from_xml'' [PStr spy_link, PStr job_type] [] w of
        (Return tcs, w') \<Rightarrow> (Return (PTuple [tcs, PNone]), w')
      | (Raise (ProwTimeoutError msg), w') \<Rightarrow>
          (Return (PTuple [PList [], PStr ''Request timed out'']), w')
      | (Raise (ProwFetchError msg), w') \<Rightarrow>
          (Return (PTuple [PList [], PStr ''Failed to get response from e2e-test directory url'']), w')
      | (Raise (ProwParseError msg), w') \<Rightarrow>
          (Return (PTuple [PList [], PStr ''Failed to parse junit e2e log file!'']), w')
      | (Raise e, w') \<Rightarrow>
          (Return (PTuple [PList [], PStr ''Monitor test file not found'']), w'))"

definition get_testcase_frequency ::
  "'c collaborator \<Rightarrow> pyval \<Rightarrow> pyval option \<Rightarrow> pyval option \<Rightarrow> 'c world \<Rightarrow> outcome \<times> 'c world" where
  "get_testcase_frequency m spylinks zone tc_name w =
     (case invoke m ''get_testcase_frequency''
             [spylinks, default_none zone, default_none tc_name] [] w of
        (Return v, w') \<Rightarrow> (Return v, w')
      | (Raise e, w') \<Rightarrow> (Return (PDict []), w'))"

definition get_failed_e2e_testcases ::
  "'c collaborator \<Rightarrow> string \<Rightarrow> string \<Rightarrow> 'c world \<Rightarrow> outcome \<times> 'c world" where
  "get_failed_e2e_testcases m spy_link job_type w =
     (case invoke m ''get_failed_e2e_testcases'' [PStr spy_link, PStr job_type] [] w of
        (Return tcs, w') \<Rightarrow> (Return (PTuple [tcs, PNone]), w')
      | (Raise (ProwTimeoutError msg), w') \<Rightarrow>
          (Return (PTuple [PList [], PStr ''Request timed out'']), w')
      | (Raise (ProwFetchError msg), w') \<Rightarrow>
          (Return (PTuple [PList [], PStr ''Failed to get response from e2e-test directory url'']), w')
      | (Raise (ProwParseError msg), w') \<Rightarrow>
          (Return (PTuple [PList [], PStr ''Failed to parse the data from e2e-test log file!'']), w')
      | (Raise e, w') \<Rightarrow>
          (Return (PTuple [PList [], PStr ''Test summary file not found'']), w'))"

definition get_junit_symptom_detection_testcase_failures ::
  "'c collaborator \<Rightarrow> string \<Rightarrow> string \<Rightarrow> 'c world \<Rightarrow> outcome \<times> 'c world" where
  "get_junit_symptom_detection_testcase_failures m spy_link job_type w =
     (case invoke m ''get_junit_symptom_detection_testcase_failures'' [PStr spy_link, PStr job_type] [] w of
        (Return tcs, w') \<Rightarrow> (Return (PTuple [tcs, PNone]), w')
      | (Raise (ProwTimeoutError msg), w') \<Rightarrow>
          (Return (PTuple [PList [], PStr ''Request timed out'']), w')
      | (Raise (ProwFetchError msg), w') \<Rightarrow>
          (Return (PTuple [PList [], PStr ''Error while sending request to url'']), w')
      | (Raise (ProwParseError msg), w') \<Rightarrow>
          (Return (PTuple [PList [], PStr ''Failed to parse symptom detection e2e log file!'']), w')
      | (Raise e, w') \<Rightarrow>
          (Return (PTuple [PList [], PStr ''Junit test summary file not found'']), w'))"

text \<open>
  \<^verbatim>\<open>get_all_failed_tc\<close>. The dict literal with the three keys, all bound to the same value:
\<close>

definition error_object :: "pyval \<Rightarrow> pyval" where
  "error_object x =
     PDict [(PStr ''conformance'', x), (PStr ''monitor'', x), (PStr ''symptom_detection'', x)]"

text \<open>
  The statements of the \<^verbatim>\<open>try\<close> block after the collaborator's call. A 3-tuple goes back as
  it is; otherwise the three lists are looked up (default \<^verbatim>\<open>[]\<close>) and their lengths added.
  Each step can raise, and the handlers below catch that as well.
\<close>

definition get_all_failed_tc_try :: "pyval \<Rightarrow> outcome" where
  "get_all_failed_tc_try failed_tc =
     (if is_tuple failed_tc \<and> py_len failed_tc = Return 3 then Return failed_tc
      else
        (case py_get failed_tc (PStr ''conformance'') (PList []) of
           Raise e \<Rightarrow> Raise e
         | Return conformance \<Rightarrow>
        (case py_get failed_tc (PStr ''monitor'') (PList []) of
           Raise e \<Rightarrow> Raise e
         | Return monitor_list \<Rightarrow>
        (case py_get failed_tc (PStr ''symptom_detection'') (PList []) of
           Raise e \<Rightarrow> Raise e
         | Return symptom \<Rightarrow>
        (case py_len conformance of
           Raise e \<Rightarrow> Raise e
         | Return n1 \<Rightarrow>
        (case py_len monitor_list of
           Raise e \<Rightarrow> Raise e
         | Return n2 \<Rightarrow>
        (case py_len symptom of
           Raise e \<Rightarrow> Raise e
         | Return n3 \<Rightarrow>
             Return (PTuple [failed_tc, PInt (n1 + n2 + n3), error_object PNone]))))))))"

fun get_all_failed_tc_except :: "exc \<Rightarrow> pyval" where
  "get_all_failed_tc_except (ProwTimeoutError msg) =
     PTuple [PDict [], PInt 0, error_object (PStr ''Request timed out'')]"
| "get_all_failed_tc_except (ProwFetchError msg) =
     PTuple [PDict [], PInt 0, error_object (PStr ''Error while sending request to url'')]"
| "get_all_failed_tc_except (ProwParseError msg) =
     PTuple [PDict [], PInt 0,
             error_object (PStr ''Failed to parse the data from e2e-test log file!'')]"
| "get_all_failed_tc_except e =
     PTuple [PDict [], PInt 0, error_object (PStr ''Test summary file not found'')]"

definition get_all_failed_tc ::
  "'c collaborator \<Rightarrow> string \<Rightarrow> string \<Rightarrow> 'c world \<Rightarrow> outcome \<times> 'c world" where
  "get_all_failed_tc m spylink jobtype w =
     (case invoke m ''get_all_failed_tc'' [PStr spylink, PStr jobtype] [] w of
        (r, w') \<Rightarrow>
          (case (case r of Return failed_tc \<Rightarrow> get_all_failed_tc_try failed_tc
                         | Raise e \<Rightarrow> Raise e) of
             Return v \<Rightarrow> (Return v, w')
           | Raise e \<Rightarrow> (Return (get_all_failed_tc_except e), w')))"

subsection \<open>Status, date and job-info operations\<close>

definition check_ts_exe_status ::
  "'c collaborator \<Rightarrow> string \<Rightarrow> string \<Rightarrow> 'c world \<Rightarrow> outcome \<times> 'c world" where
  "check_ts_exe_status m spylink jobtype w =
     (case invoke m ''check_ts_exe_status'' [PStr spylink, PStr jobtype] [] w of
        (Return v, w') \<Rightarrow> (Return v, w')
      | (Raise (ProwTimeoutError msg), w') \<Rightarrow>
          (Return (PStr ''Request timed out''), w')
      | (Raise (ProwFetchError msg), w') \<Rightarrow>
          (Return (PStr ''Error while sending request to url''), w')
      | (Raise (ProwParseError msg), w') \<Rightarrow>
          (Return (PStr ''ERROR''), w')
      | (Raise e, w') \<Rightarrow>
          (Return (PStr ''ERROR''), w'))"

definition print_all_failed_tc ::
  "'c collaborator \<Rightarrow> string \<Rightarrow> string \<Rightarrow> 'c world \<Rightarrow> outcome \<times> 'c world" where
  "print_all_failed_tc m spylink jobtype w =
     (case invoke m ''print_all_failed_tc'' [PStr spylink, PStr jobtype] [] w of
        (Return v, w') \<Rightarrow> (Return v, w')
      | (Raise (ProwTimeoutError msg), w') \<Rightarrow>
          (Return (PStr ''Request timed out''), w')
      | (Raise (ProwFetchError msg), w') \<Rightarrow>
          (Return (PStr ''Error while sending request to url''), w')
      | (Raise (ProwParseError msg), w') \<Rightarrow>
          (Return (PStr ''ERROR''), w')
      | (Raise e, w') \<Rightarrow>
          (Return (PStr ''ERROR''), w'))"

definition check_testcase_failure ::
  "'c collaborator \<Rightarrow> string \<Rightarrow> string \<Rightarrow> string \<Rightarrow> 'c world \<Rightarrow> outcome \<times> 'c world" where
  "check_testcase_failure m spylink job_type testcase_name w =
     (case invoke m ''check_testcase_failure'' [PStr spylink, PStr job_type, PStr testcase_name] [] w of
        (Return v, w') \<Rightarrow> (Return v, w')
      | (Raise e, w') \<Rightarrow> (Return (PBool False), w'))"

definition get_jobs_with_date ::
  "'c collaborator \<Rightarrow> string \<Rightarrow> pyval \<Rightarrow> pyval \<Rightarrow> 'c world \<Rightarrow> outcome \<times> 'c world" where
  "get_jobs_with_date m prowci_url start_date end_date w =
     (case invoke m ''get_jobs_with_date'' [PStr prowci_url, start_date, end_date] [] w of
        (Return v, w') \<Rightarrow> (Return v, w')
      | (Raise (ProwTimeoutError msg), w') \<Rightarrow>
          (Return (PStr ''Request timed out''), w')
      | (Raise (ProwFetchError msg), w') \<Rightarrow>
          (Return (PStr ''Error while sending request to url''), w')
      | (Raise (ProwParseError msg), w') \<Rightarrow>
          (Return (PStr ''ERROR''), w')
      | (Raise e, w') \<Rightarrow>
          (Return (PStr ''ERROR''), w'))"

definition get_next_page_first_build_date ::
  "'c collaborator \<Rightarrow> string \<Rightarrow> pyval \<Rightarrow> 'c world \<Rightarrow> outcome \<times> 'c world" where
  "get_next_page_first_build_date m ci_next_page_spylink end_date w =
     (case invoke m ''get_next_page_first_build_date'' [PStr ci_next_page_spylink, end_date] [] w of
        (Return v, w') \<Rightarrow> (Return v, w')
      | (Raise (ProwTimeoutError msg), w') \<Rightarrow>
          (Return (PStr ''Request timed out''), w')
      | (Raise (ProwFetchError msg), w') \<Rightarrow>
          (Return (PStr ''Error while sending request to url''), w')
      | (Raise (ProwParseError msg), w') \<Rightarrow>
          (Return (PStr ''ERROR''), w')
      | (Raise e, w') \<Rightarrow>
          (Return (PStr ''ERROR''), w'))"

definition get_brief_job_info ::
  "'c collaborator \<Rightarrow> pyval \<Rightarrow> pyval \<Rightarrow> pyval option \<Rightarrow> 'c world \<Rightarrow> outcome \<times> 'c world" where
  "get_brief_job_info m build_list prow_ci_name zone w =
     (case invoke m ''get_brief_job_info'' [build_list, prow_ci_name] [(''zone'', default_none zone)] w of
        (Return v, w') \<Rightarrow> (Return v, w')
      | (Raise (ProwTimeoutError msg), w') \<Rightarrow>
          (Return (PList []), w')
      | (Raise (ProwFetchError msg), w') \<Rightarrow>
          (Return (PList []), w')
      | (Raise (ProwParseError msg), w') \<Rightarrow>
          (Return (PList []), w')
      | (Raise e, w') \<Rightarrow>
          (Return (PList []), w'))"

definition get_detailed_job_info ::
  "'c collaborator \<Rightarrow> pyval \<Rightarrow> pyval \<Rightarrow> pyval option \<Rightarrow> 'c world \<Rightarrow> outcome \<times> 'c world" where
  "get_detailed_job_info m build_list prow_ci_name zone w =
     (case invoke m ''get_detailed_job_info'' [build_list, prow_ci_name] [(''zone'', default_none zone)] w of
        (Return v, w') \<Rightarrow> (Return v, w')
      | (Raise (ProwTimeoutError msg), w') \<Rightarrow>
          (Return (PInt 1), w')
      | (Raise (ProwFetchError msg), w') \<Rightarrow>
          (Return (PInt 1), w')
      | (Raise (ProwParseError msg), w') \<Rightarrow>
          (Return (PInt 1), w')
      | (Raise e, w') \<Rightarrow>
          (Return (PInt 1), w'))"

section \<open>The adapter as a whole\<close>

text \<open>
  A request is one call of a public function of the adapter with its arguments, one
  constructor for each function the module defines, in the source's order. An optional
  argument is \<open>None\<close> when the caller leaves it out.
\<close>

datatype request =
    FetchReleaseDate string
  | FetchBuildTime string
  | SetProwUrl string
  | LoadConfig string
  | GetCurrentDate
  | ParseJobDate string
  | GetJobs string
  | GetNRecentJobs string int
  | CheckJobStatus string
  | ClusterDeployStatus string
  | ClusterCreationErrorAnalysis string
  | CheckIfGatherLibvirtDirExists string string
  | CheckHypervisorError string
  | CheckIfSensitiveInfoExposed string
  | GetNodeStatus string
  | CheckNodeCrash string
  | GetLease pyval string
  | GetNightly string pyval string
  | GetQuotaAndNightly string
  | JobClassifier string
  | GetFailedMonitorTestcases string string
  | GetFailedMonitorTestcasesFromXml string string
  | GetTestcaseFrequency pyval "pyval option" "pyval option"
  | GetFailedE2eTestcases string string
  | GetJunitSymptomDetectionTestcaseFailures string string
  | GetAllFailedTc string string
  | CheckTsExeStatus string string
  | PrintAllFailedTc string string
  | CheckTestcaseFailure string string string
  | GetJobsWithDate string pyval pyval
  | GetNextPageFirstBuildDate string pyval
  | GetBriefJobInfo pyval pyval "pyval option"
  | GetDetailedJobInfo pyval pyval "pyval option"

text \<open>Calling the adapter: the function of the request's name, on its arguments.\<close>

fun adapter_call :: "'c collaborator \<Rightarrow> request \<Rightarrow> 'c world \<Rightarrow> outcome \<times> 'c world" where
  "adapter_call m (FetchReleaseDate release) w = fetch_release_date m release w"
| "adapter_call m (FetchBuildTime url) w = fetch_build_time m url w"
| "adapter_call m (SetProwUrl ci_job_type) w = set_prow_url m ci_job_type w"
| "adapter_call m (LoadConfig config_file) w = load_config m config_file w"
| "adapter_call m (GetCurrentDate) w = get_current_date m w"
| "adapter_call m (ParseJobDate date) w = parse_job_date m date w"
| "adapter_call m (GetJobs prow_link) w = get_jobs m prow_link w"
| "adapter_call m (GetNRecentJobs prow_link n) w = get_n_recent_jobs m prow_link n w"
| "adapter_call m (CheckJobStatus spy_link) w = check_job_status m spy_link w"
| "adapter_call m (ClusterDeployStatus spy_link) w = cluster_deploy_status m spy_link w"
| "adapter_call m (ClusterCreationErrorAnalysis spylink) w = cluster_creation_error_analysis m spylink w"
| "adapter_call m (CheckIfGatherLibvirtDirExists spy_link job_type) w = check_if_gather_libvirt_dir_exists m spy_link job_type w"
| "adapter_call m (CheckHypervisorError spy_link) w = check_hypervisor_error m spy_link w"
| "adapter_call m (CheckIfSensitiveInfoExposed spy_link) w = check_if_sensitive_info_exposed m spy_link w"
| "adapter_call m (GetNodeStatus spy_link) w = get_node_status m spy_link w"
| "adapter_call m (CheckNodeCrash spy_link) w = check_node_crash m spy_link w"
| "adapter_call m (GetLease build_log_response job_platform) w = get_lease m build_log_response job_platform w"
| "adapter_call m (GetNightly build_log_url build_log_response job_platform) w = get_nightly m build_log_url build_log_response job_platform w"
| "adapter_call m (GetQuotaAndNightly spy_link) w = get_quota_and_nightly m spy_link w"
| "adapter_call m (JobClassifier spy_link) w = job_classifier m spy_link w"
| "adapter_call m (GetFailedMonitorTestcases spy_link job_type) w = get_failed_monitor_testcases m spy_link job_type w"
| "adapter_call m (GetFailedMonitorTestcasesFromXml spy_link job_type) w = get_failed_monitor_testcases_from_xml m spy_link job_type w"
| "adapter_call m (GetTestcaseFrequency spylinks zone tc_name) w = get_testcase_frequency m spylinks zone tc_name w"
| "adapter_call m (GetFailedE2eTestcases spy_link job_type) w = get_failed_e2e_testcases m spy_link job_type w"
| "adapter_call m (GetJunitSymptomDetectionTestcaseFailures spy_link job_type) w = get_junit_symptom_detection_testcase_failures m spy_link job_type w"
| "adapter_call m (GetAllFailedTc spylink jobtype) w = get_all_failed_tc m spylink jobtype w"
| "adapter_call m (CheckTsExeStatus spylink jobtype) w = check_ts_exe_status m spylink jobtype w"
| "adapter_call m (PrintAllFailedTc spylink jobtype) w = print_all_failed_tc m spylink jobtype w"
| "adapter_call m (CheckTestcaseFailure spylink job_type testcase_name) w = check_testcase_failure m spylink job_type testcase_name w"
| "adapter_call m (GetJobsWithDate prowci_url start_date end_date) w = get_jobs_with_date m prowci_url start_date end_date w"
| "adapter_call m (GetNextPageFirstBuildDate ci_next_page_spylink end_date) w = get_next_page_first_build_date m ci_next_page_spylink end_date w"
| "adapter_call m (GetBriefJobInfo build_list prow_ci_name zone) w = get_brief_job_info m build_list prow_ci_name zone w"
| "adapter_call m (GetDetailedJobInfo build_list prow_ci_name zone) w = get_detailed_job_info m build_list prow_ci_name zone w"

text \<open>
  The call each function makes on the collaborator: the attribute it calls, the positional
  arguments and the keyword arguments.
\<close>

fun collaborator_call :: "request \<Rightarrow> string \<times> pyval list \<times> (string \<times> pyval) list" where
  "collaborator_call (FetchReleaseDate release) =
     (''fetch_release_date'', [PStr release], [])"
| "collaborator_call (FetchBuildTime url) =
     (''fetch_build_time'', [PStr url], [])"
| "collaborator_call (SetProwUrl ci_job_type) =
     (''set_prow_url'', [PStr ci_job_type], [])"
| "collaborator_call (LoadConfig config_file) =
     (''load_config'', [PStr config_file], [])"
| "collaborator_call (GetCurrentDate) =
     (''get_current_date'', [], [])"
| "collaborator_call (ParseJobDate date) =
     (''parse_job_date'', [PStr date], [])"
| "collaborator_call (GetJobs prow_link) =
     (''get_jobs'', [PStr prow_link], [])"
| "collaborator_call (GetNRecentJobs prow_link n) =
     (''get_n_recent_jobs'', [PStr prow_link, PInt n], [])"
| "collaborator_call (CheckJobStatus spy_link) =
     (''check_job_status'', [PStr spy_link], [])"
| "collaborator_call (ClusterDeployStatus spy_link) =
     (''cluster_deploy_status'', [PStr spy_link], [])"
| "collaborator_call (ClusterCreationErrorAnalysis spylink) =
     (''cluster_creation_error_analysis'', [PStr spylink], [])"
| "collaborator_call (CheckIfGatherLibvirtDirExists spy_link job_type) =
     (''check_if_gather_libvirt_dir_exists'', [PStr spy_link, PStr job_type], [])"
| "collaborator_call (CheckHypervisorError spy_link) =
     (''check_hypervisor_error'', [PStr spy_link], [])"
| "collaborator_call (CheckIfSensitiveInfoExposed spy_link) =
     (''check_if_sensitive_info_exposed'', [PStr spy_link], [])"
| "collaborator_call (GetNodeStatus spy_link) =
     (''get_node_status'', [PStr spy_link], [])"
| "collaborator_call (CheckNodeCrash spy_link) =
     (''check_node_crash'', [PStr spy_link], [])"
| "collaborator_call (GetLease build_log_response job_platform) =
     (''get_lease'', [build_log_response, PStr job_platform], [])"
| "collaborator_call (GetNightly build_log_url build_log_response job_platform) =
     (''get_nightly'', [PStr build_log_url, build_log_response, PStr job_platform], [])"
| "collaborator_call (GetQuotaAndNightly spy_link) =
     (''get_quota_and_nightly'', [PStr spy_link], [])"
| "collaborator_call (JobClassifier spy_link) =
     (''job_classifier'', [PStr spy_link], [])"
| "collaborator_call (GetFailedMonitorTestcases spy_link job_type) =
     (''get_failed_monitor_testcases'', [PStr spy_link, PStr job_type], [])"
| "collaborator_call (GetFailedMonitorTestcasesFromXml spy_link job_type) =
     (''get_failed_monitor_testcases_from_xml'', [PStr spy_link, PStr job_type], [])"
| "collaborator_call (GetTestcaseFrequency spylinks zone tc_name) =
     (''get_testcase_frequency'', [spylinks, default_none zone, default_none tc_name], [])"
| "collaborator_call (GetFailedE2eTestcases spy_link job_type) =
     (''get_failed_e2e_testcases'', [PStr spy_link, PStr job_type], [])"
| "collaborator_call (GetJunitSymptomDetectionTestcaseFailures spy_link job_type) =
     (''get_junit_symptom_detection_testcase_failures'', [PStr spy_link, PStr job_type], [])"
| "collaborator_call (GetAllFailedTc spylink jobtype) =
     (''get_all_failed_tc'', [PStr spylink, PStr jobtype], [])"
| "collaborator_call (CheckTsExeStatus spylink jobtype) =
     (''check_ts_exe_status'', [PStr spylink, PStr jobtype], [])"
| "collaborator_call (PrintAllFailedTc spylink jobtype) =
     (''print_all_failed_tc'', [PStr spylink, PStr jobtype], [])"
| "collaborator_call (CheckTestcaseFailure spylink job_type testcase_name) =
     (''check_testcase_failure'', [PStr spylink, PStr job_type, PStr testcase_name], [])"
| "collaborator_call (GetJobsWithDate prowci_url start_date end_date) =
     (''get_jobs_with_date'', [PStr prowci_url, start_date, end_date], [])"
| "collaborator_call (GetNextPageFirstBuildDate ci_next_page_spylink end_date) =
     (''get_next_page_first_build_date'', [PStr ci_next_page_spylink, end_date], [])"
| "collaborator_call (GetBriefJobInfo build_list prow_ci_name zone) =
     (''get_brief_job_info'', [build_list, prow_ci_name], [(''zone'', default_none zone)])"
| "collaborator_call (GetDetailedJobInfo build_list prow_ci_name zone) =
     (''get_detailed_job_info'', [build_list, prow_ci_name], [(''zone'', default_none zone)])"

text \<open>
  The five functions without a \<^verbatim>\<open>try\<close>, and the functions whose handlers all end in
  \<^verbatim>\<open>return\<close>: every function except those five and \<^verbatim>\<open>check_if_sensitive_info_exposed\<close>.
\<close>

fun forwards :: "request \<Rightarrow> bool" where
  "forwards (SetProwUrl ci_job_type) = True"
| "forwards (LoadConfig config_file) = True"
| "forwards (GetCurrentDate) = True"
| "forwards (ParseJobDate date) = True"
| "forwards (JobClassifier spy_link) = True"
| "forwards req = False"

fun reraises :: "request \<Rightarrow> bool" where
  "reraises (CheckIfSensitiveInfoExposed spy_link) = True"
| "reraises req = False"

definition catches_and_returns :: "request \<Rightarrow> bool" where
  "catches_and_returns req = (\<not> forwards req \<and> \<not> reraises req)"

text \<open>
  A caller's session after the module is loaded: any number of calls, one after the other,
  whatever each returns or raises.
\<close>

fun run_calls :: "'c collaborator \<Rightarrow> request list \<Rightarrow> 'c world \<Rightarrow> 'c world" where
  "run_calls m [] w = w"
| "run_calls m (req # reqs) w = run_calls m reqs (snd (adapter_call m req w))"

section \<open>Attribute access on the adapter module\<close>

text \<open>
  The names the module's own statements bind, besides the two globals: the imports, the
  two helpers, the wrapped functions and \<^verbatim>\<open>__getattr__\<close>. Their values are opaque objects.
\<close>

definition bound_names :: "string list" where
  "bound_names =
    [''Tuple'', ''List'', ''Dict'', ''Any'', ''monitor'', ''_sync_module_attrs'',
     ''_err_str_from_exc'', ''fetch_release_date'', ''fetch_build_time'', ''set_prow_url'',
     ''load_config'', ''get_current_date'', ''parse_job_date'', ''get_jobs'',
     ''get_n_recent_jobs'', ''check_job_status'', ''cluster_deploy_status'',
     ''cluster_creation_error_analysis'', ''check_if_gather_libvirt_dir_exists'',
     ''check_hypervisor_error'', ''check_if_sensitive_info_exposed'', ''get_node_status'',
     ''check_node_crash'', ''get_lease'', ''get_nightly'', ''get_quota_and_nightly'',
     ''job_classifier'', ''get_failed_monitor_testcases'',
     ''get_failed_monitor_testcases_from_xml'', ''get_testcase_frequency'',
     ''get_failed_e2e_testcases'', ''get_junit_symptom_detection_testcase_failures'',
     ''get_all_failed_tc'', ''check_ts_exe_status'', ''print_all_failed_tc'',
     ''check_testcase_failure'', ''get_jobs_with_date'',
     ''get_next_page_first_build_date'', ''get_brief_job_info'', ''get_detailed_job_info'',
     ''__getattr__'']"

definition module_globals :: "'c world \<Rightarrow> string \<Rightarrow> pyval option" where
  "module_globals w name =
     (if name = ''PROW_URL'' then Some (PROW_URL w)
      else if name = ''final_job_list'' then Some (final_job_list w)
      else if name \<in> set bound_names then Some (PObject name)
      else None)"

text \<open>\<^verbatim>\<open>__getattr__(name)\<close> is \<^verbatim>\<open>getattr(monitor, name)\<close>.\<close>

definition module_getattr :: "'c collaborator \<Rightarrow> string \<Rightarrow> 'c world \<Rightarrow> outcome" where
  "module_getattr m name w = getattr m name (monitor_state w)"

text \<open>
  Reading \<^verbatim>\<open>monitor_compact.name\<close>. Python looks the name up in the module's globals and
  among the attributes every module object has (\<^verbatim>\<open>__name__\<close>, \<^verbatim>\<open>__dict__\<close>, ...; the
  parameter \<open>interp\<close>), and calls the module's \<^verbatim>\<open>__getattr__\<close> only when both fail.
\<close>

definition adapter_attribute ::
  "(string \<Rightarrow> pyval option) \<Rightarrow> 'c collaborator \<Rightarrow> string \<Rightarrow> 'c world \<Rightarrow> outcome" where
  "adapter_attribute interp m name w =
     (case module_globals w name of
        Some v \<Rightarrow> Return v
      | None \<Rightarrow>
          (case interp name of
             Some v \<Rightarrow> Return v
           | None \<Rightarrow> module_getattr m name w))"

section \<open>Legacy values\<close>

text \<open>
  The value an operation gives back for an exception of each kind, as a table: the
  generic strings of the error-to-value mapping, and for each operation that overrides
  them its own values (lease and nightly lookup, the job-info listings, the testcase
  operations, whose strings are those of their \<^verbatim>\<open>except\<close> clauses).
\<close>

fun by_kind :: "'a \<Rightarrow> 'a \<Rightarrow> 'a \<Rightarrow> 'a \<Rightarrow> exc \<Rightarrow> 'a" where
  "by_kind t f p u (ProwTimeoutError msg) = t"
| "by_kind t f p u (ProwFetchError msg) = f"
| "by_kind t f p u (ProwParseError msg) = p"
| "by_kind t f p u e = u"

definition generic_legacy_value :: "exc \<Rightarrow> pyval" where
  "generic_legacy_value e =
     PStr (by_kind ''Request timed out'' ''Error while sending request to url'' ''ERROR'' ''ERROR'' e)"

definition legacy_value :: "request \<Rightarrow> exc \<Rightarrow> pyval" where
  "legacy_value req e =
     (case req of
        GetLease build_log_response job_platform \<Rightarrow> PStr ''Failed to fetch lease information''
      | GetNightly build_log_url build_log_response job_platform \<Rightarrow>
          PStr (''Unable to fetch nightly '' @ job_platform @ '' information - No match found'')
      | GetQuotaAndNightly spy_link \<Rightarrow>
          PTuple [PStr (by_kind ''Request timed out'' ''Error while sending request to url''
                          ''Failed to fetch lease information''
                          ''Failed to fetch lease information'' e), PNone]
      | GetFailedMonitorTestcases spy_link job_type \<Rightarrow>
          PTuple [PList [], PStr (by_kind ''Request timed out''
                          ''Failed to get response from e2e-test directory url''
                          ''Failed to parse the data from e2e-test log file!''
                          ''Failed to parse the data from e2e-test log file!'' e)]
      | GetFailedMonitorTestcasesFromXml spy_link job_type \<Rightarrow>
          PTuple [PList [], PStr (by_kind ''Request timed out''
                          ''Failed to get response from e2e-test directory url''
                          ''Failed to parse junit e2e log file!''
                          ''Monitor test file not found'' e)]
      | GetTestcaseFrequency spylinks zone tc_name \<Rightarrow> PDict []
      | GetFailedE2eTestcases spy_link job_type \<Rightarrow>
          PTuple [PList [], PStr (by_kind ''Request timed out''
                          ''Failed to get response from e2e-test directory url''
                          ''Failed to parse the data from e2e-test log file!''
                          ''Test summary file not found'' e)]
      | GetJunitSymptomDetectionTestcaseFailures spy_link job_type \<Rightarrow>
          PTuple [PList [], PStr (by_kind ''Request timed out''
                          ''Error while sending request to url''
                          ''Failed to parse symptom detection e2e log file!''
                          ''Junit test summary file not found'' e)]
      | GetAllFailedTc spylink jobtype \<Rightarrow>
          PTuple [PDict [], PInt 0,
                  error_object (PStr (by_kind ''Request timed out''
                          ''Error while sending request to url''
                          ''Failed to parse the data from e2e-test log file!''
                          ''Test summary file not found'' e))]
      | CheckTestcaseFailure spylink job_type testcase_name \<Rightarrow> PBool False
      | GetBriefJobInfo build_list prow_ci_name zone \<Rightarrow> PList []
      | GetDetailedJobInfo build_list prow_ci_name zone \<Rightarrow> PInt 1
      | _ \<Rightarrow> generic_legacy_value e)"

text \<open>
  The kinds of legacy value the specification lists for a returned failure: a sentinel
  string, an empty list, an empty mapping, a fixed integer code, or a tuple.
\<close>

fun enumerated_legacy_kind :: "pyval \<Rightarrow> bool" where
  "enumerated_legacy_kind (PStr s) = True"
| "enumerated_legacy_kind (PList xs) = (xs = [])"
| "enumerated_legacy_kind (PDict kvs) = (kvs = [])"
| "enumerated_legacy_kind (PInt i) = True"
| "enumerated_legacy_kind (PTuple xs) = True"
| "enumerated_legacy_kind v = False"

section \<open>Collaborator stubs\<close>

text \<open>
  A stateless stub: every call has the outcome \<open>r\<close>, every attribute read the outcome
  \<open>a\<close>; it has no mutable objects.
\<close>

definition stub :: "outcome \<Rightarrow> outcome \<Rightarrow> unit collaborator" where
  "stub r a =
     \<lparr>call = (\<lambda>name args kwargs c. (r, c)), getattr = (\<lambda>name c. a),
      deref = (\<lambda>a c. None)\<rparr>"

text \<open>
  A stub with a state, its own \<^verbatim>\<open>PROW_URL\<close>: \<^verbatim>\<open>set_prow_url(x)\<close> stores \<open>x\<close> there and
  returns it; nothing else is defined.
\<close>

definition url_stub :: "pyval collaborator" where
  "url_stub =
     \<lparr>call = (\<lambda>name args kwargs c.
               if name = ''set_prow_url'' \<and> length args = 1 then (Return (hd args), hd args)
               else (Raise AttributeError, c)),
      getattr = (\<lambda>name c. if name = ''PROW_URL'' then Return c else Raise AttributeError),
      deref = (\<lambda>a c. None)\<rparr>"

text \<open>
  A stub whose \<^verbatim>\<open>final_job_list\<close> is one list object, at address 0, for as long as it
  lives; its state is what that list holds. \<^verbatim>\<open>get_jobs\<close> appends \<^verbatim>\<open>"job1"\<close> to the list in
  place and returns an empty list; nothing else is defined.
\<close>

definition list_stub :: "pyval list collaborator" where
  "list_stub =
     \<lparr>call = (\<lambda>name args kwargs c.
               if name = ''get_jobs'' then (Return (PList []), c @ [PStr ''job1''])
               else (Raise AttributeError, c)),
      getattr = (\<lambda>name c. if name = ''final_job_list'' then Return (PRef 0)
                           else Raise AttributeError),
      deref = (\<lambda>a c. if a = 0 then Some (PList c) else None)\<rparr>"

section \<open>Basic facts\<close>

lemma invoke_eq:
  "call m name args kwargs (monitor_state w) = (r, c)
   \<Longrightarrow> invoke m name args kwargs w = (r, w\<lparr>monitor_state := c\<rparr>)"
  by (simp add: invoke_def)

lemma invoke_frame:
  "PROW_URL (snd (invoke m name args kwargs w)) = PROW_URL w
   \<and> final_job_list (snd (invoke m name args kwargs w)) = final_job_list w"
  by (simp add: invoke_def split: prod.splits)

lemmas wrapped_defs =
  fetch_release_date_def fetch_build_time_def set_prow_url_def load_config_def
  get_current_date_def parse_job_date_def get_jobs_def get_n_recent_jobs_def
  check_job_status_def cluster_deploy_status_def cluster_creation_error_analysis_def
  check_if_gather_libvirt_dir_exists_def check_hypervisor_error_def
  check_if_sensitive_info_exposed_def get_node_status_def check_node_crash_def
  get_lease_def get_nightly_def get_quota_and_nightly_def job_classifier_def
  get_failed_monitor_testcases_def get_failed_monitor_testcases_from_xml_def
  get_testcase_frequency_def get_failed_e2e_testcases_def
  get_junit_symptom_detection_testcase_failures_def get_all_failed_tc_def
  check_ts_exe_status_def print_all_failed_tc_def check_testcase_failure_def
  get_jobs_with_date_def get_next_page_first_build_date_def get_brief_job_info_def
  get_detailed_job_info_def

text \<open>The generic table is what \<^verbatim>\<open>_err_str_from_exc\<close> computes.\<close>

lemma generic_legacy_value_err_str: "generic_legacy_value e = PStr (err_str_from_exc e)"
  by (cases e) (simp_all add: generic_legacy_value_def)

text \<open>
  A function whose handlers all return gives, when the collaborator raises, the value of
  the table, and leaves the collaborator in the state the failed call left it in.
\<close>

lemma adapter_call_catches:
  assumes "catches_and_returns req"
    and "collaborator_call req = (name, args, kwargs)"
    and "call m name args kwargs (monitor_state w) = (Raise e, c)"
  shows "adapter_call m req w = (Return (legacy_value req e), w\<lparr>monitor_state := c\<rparr>)"
  using assms
  by (cases req; cases e;
      simp add: catches_and_returns_def wrapped_defs invoke_eq legacy_value_def
                generic_legacy_value_def)

text \<open>A function without a \<^verbatim>\<open>try\<close> has the collaborator's outcome, whatever it is.\<close>

lemma forwards_outcome:
  assumes "forwards req" and "collaborator_call req = (name, args, kwargs)"
  shows "adapter_call m req w = invoke m name args kwargs w"
  using assms by (cases req; simp add: wrapped_defs)

text \<open>Every function leaves the world as its one call on the collaborator left it.\<close>

lemma adapter_call_state:
  "snd (adapter_call m req w) =
     snd (case collaborator_call req of (name, args, kwargs) \<Rightarrow> invoke m name args kwargs w)"
  by (cases req; simp add: wrapped_defs split: prod.splits result.splits exc.splits)

section \<open>Failures become legacy values\<close>

text \<open>
  Claim C1, as amended. For every adapter operation whose handlers all return, that is
  every operation except the sensitive-info check and the five that forward without a
  \<^verbatim>\<open>try\<close> (\<^verbatim>\<open>set_prow_url\<close>, \<^verbatim>\<open>load_config\<close>, \<^verbatim>\<open>get_current_date\<close>, \<^verbatim>\<open>parse_job_date\<close>,
  \<^verbatim>\<open>job_classifier\<close>): if the collaborator's call raises an exception, of the timeout,
  fetch or parse kind or of any other, the adapter's call returns, and the value it returns
  is the legacy value of that operation for that kind of exception.
\<close>

theorem legacy_value_on_failure:
  assumes "catches_and_returns req"
    and "collaborator_call req = (name, args, kwargs)"
    and "call m name args kwargs (monitor_state w) = (Raise e, c)"
  shows "is_return (fst (adapter_call m req w))
         \<and> adapter_call m req w = (Return (legacy_value req e), w\<lparr>monitor_state := c\<rparr>)"
  using adapter_call_catches [OF assms] by simp

text \<open>
  The theorem at \<^verbatim>\<open>get_jobs("prow")\<close> with a collaborator that times out: the adapter
  returns the string \<^verbatim>\<open>"Request timed out"\<close>.
\<close>

theorem legacy_value_on_failure_witness:
  "catches_and_returns (GetJobs ''prow'')
   \<and> collaborator_call (GetJobs ''prow'') = (''get_jobs'', [PStr ''prow''], [])
   \<and> call (stub (Raise (ProwTimeoutError ''t'')) (Raise AttributeError))
        ''get_jobs'' [PStr ''prow''] []
        (monitor_state \<lparr>PROW_URL = PNone, final_job_list = PList [], monitor_state = ()\<rparr>)
       = (Raise (ProwTimeoutError ''t''), ())
   \<and> adapter_call (stub (Raise (ProwTimeoutError ''t'')) (Raise AttributeError)) (GetJobs ''prow'')
        \<lparr>PROW_URL = PNone, final_job_list = PList [], monitor_state = ()\<rparr>
       = (Return (PStr ''Request timed out''),
          \<lparr>PROW_URL = PNone, final_job_list = PList [], monitor_state = ()\<rparr>)"
proof -
  let ?m = "stub (Raise (ProwTimeoutError ''t'')) (Raise AttributeError)"
  let ?w = "\<lparr>PROW_URL = PNone, final_job_list = PList [], monitor_state = ()\<rparr>"
  have h1: "catches_and_returns (GetJobs ''prow'')"
    by (simp add: catches_and_returns_def)
  have h2: "collaborator_call (GetJobs ''prow'') = (''get_jobs'', [PStr ''prow''], [])"
    by simp
  have h3: "call ?m ''get_jobs'' [PStr ''prow''] [] (monitor_state ?w)
              = (Raise (ProwTimeoutError ''t''), ())"
    by (simp add: stub_def)
  from legacy_value_on_failure [OF h1 h2 h3] h1 h2 h3 show ?thesis
    by (simp add: legacy_value_def generic_legacy_value_def)
qed

text \<open>
  The claim as first stated, for every operation but the sensitive-info check, fails at
  \<^verbatim>\<open>set_prow_url("periodic")\<close>: the collaborator's call raises a timeout error and so does
  the adapter's.
\<close>

theorem set_prow_url_propagates_timeout:
  "call (stub (Raise (ProwTimeoutError ''t'')) (Raise AttributeError))
        ''set_prow_url'' [PStr ''periodic''] [] () = (Raise (ProwTimeoutError ''t''), ())
   \<and> fst (set_prow_url (stub (Raise (ProwTimeoutError ''t'')) (Raise AttributeError)) ''periodic''
            \<lparr>PROW_URL = PNone, final_job_list = PList [], monitor_state = ()\<rparr>)
       = Raise (ProwTimeoutError ''t'')
   \<and> \<not> is_return (fst (adapter_call (stub (Raise (ProwTimeoutError ''t'')) (Raise AttributeError))
            (SetProwUrl ''periodic'')
            \<lparr>PROW_URL = PNone, final_job_list = PList [], monitor_state = ()\<rparr>))"
  by (simp add: set_prow_url_def invoke_def stub_def)

section \<open>Result-shape normalization\<close>

text \<open>
  What the four extraction functions do with a successful result. All four pair a value
  that is not a tuple with \<^verbatim>\<open>None\<close>; \<^verbatim>\<open>get_failed_monitor_testcases\<close> returns a tuple
  as it is; the other three pair a tuple with \<^verbatim>\<open>None\<close> as well.
\<close>

lemma get_failed_monitor_testcases_success:
  assumes "call m ''get_failed_monitor_testcases'' [PStr spy_link, PStr job_type] []
             (monitor_state w) = (Return tcs, c)"
  shows "get_failed_monitor_testcases m spy_link job_type w
           = (Return (if is_tuple tcs then tcs else PTuple [tcs, PNone]),
              w\<lparr>monitor_state := c\<rparr>)"
  using assms by (simp add: get_failed_monitor_testcases_def invoke_eq)

lemma get_failed_monitor_testcases_from_xml_success:
  assumes "call m ''get_failed_monitor_testcases_from_xml'' [PStr spy_link, PStr job_type] []
             (monitor_state w) = (Return tcs, c)"
  shows "get_failed_monitor_testcases_from_xml m spy_link job_type w
           = (Return (PTuple [tcs, PNone]), w\<lparr>monitor_state := c\<rparr>)"
  using assms by (simp add: get_failed_monitor_testcases_from_xml_def invoke_eq)

lemma get_failed_e2e_testcases_success:
  assumes "call m ''get_failed_e2e_testcases'' [PStr spy_link, PStr job_type] []
             (monitor_state w) = (Return tcs, c)"
  shows "get_failed_e2e_testcases m spy_link job_type w
           = (Return (PTuple [tcs, PNone]), w\<lparr>monitor_state := c\<rparr>)"
  using assms by (simp add: get_failed_e2e_testcases_def invoke_eq)

lemma get_junit_symptom_detection_testcase_failures_success:
  assumes "call m ''get_junit_symptom_detection_testcase_failures''
             [PStr spy_link, PStr job_type] [] (monitor_state w) = (Return tcs, c)"
  shows "get_junit_symptom_detection_testcase_failures m spy_link job_type w
           = (Return (PTuple [tcs, PNone]), w\<lparr>monitor_state := c\<rparr>)"
  using assms by (simp add: get_junit_symptom_detection_testcase_failures_def invoke_eq)

text \<open>
  Claim C2 says that every failed-testcase extraction operation returns a result that is
  already a legacy-shaped tuple unchanged. With a collaborator that returns the pair
  \<^verbatim>\<open>(["tc1"], None)\<close>, \<^verbatim>\<open>get_failed_e2e_testcases\<close> returns the nested pair
  \<^verbatim>\<open>((["tc1"], None), None)\<close>, which is not what it received, while
  \<^verbatim>\<open>get_failed_monitor_testcases\<close> returns the pair as it is.
\<close>

theorem get_failed_e2e_testcases_wraps_tuple:
  "fst (get_failed_e2e_testcases
          (stub (Return (PTuple [PList [PStr ''tc1''], PNone])) (Raise AttributeError))
          ''link'' ''e2e''
          \<lparr>PROW_URL = PNone, final_job_list = PList [], monitor_state = ()\<rparr>)
     = Return (PTuple [PTuple [PList [PStr ''tc1''], PNone], PNone])
   \<and> fst (get_failed_e2e_testcases
          (stub (Return (PTuple [PList [PStr ''tc1''], PNone])) (Raise AttributeError))
          ''link'' ''e2e''
          \<lparr>PROW_URL = PNone, final_job_list = PList [], monitor_state = ()\<rparr>)
     \<noteq> Return (PTuple [PList [PStr ''tc1''], PNone])
   \<and> fst (get_failed_monitor_testcases
          (stub (Return (PTuple [PList [PStr ''tc1''], PNone])) (Raise AttributeError))
          ''link'' ''e2e''
          \<lparr>PROW_URL = PNone, final_job_list = PList [], monitor_state = ()\<rparr>)
     = Return (PTuple [PList [PStr ''tc1''], PNone])"
  by (simp add: get_failed_e2e_testcases_def get_failed_monitor_testcases_def invoke_def stub_def)

text \<open>
  Claim C3. When the collaborator's \<^verbatim>\<open>get_all_failed_tc\<close> returns a mapping whose keys
  \<^verbatim>\<open>conformance\<close>, \<^verbatim>\<open>monitor\<close> and \<^verbatim>\<open>symptom_detection\<close> are bound to lists, the adapter
  returns the triple of that mapping, the sum of the three lengths, and the mapping of the
  three keys to \<^verbatim>\<open>None\<close>. (The association list holds the items of the dict, one for each
  key.)
\<close>

theorem get_all_failed_tc_counts:
  assumes "call m ''get_all_failed_tc'' [PStr spylink, PStr jobtype] [] (monitor_state w)
             = (Return (PDict kvs), c)"
    and "map_of kvs (PStr ''conformance'') = Some (PList cs)"
    and "map_of kvs (PStr ''monitor'') = Some (PList ms)"
    and "map_of kvs (PStr ''symptom_detection'') = Some (PList ss)"
  shows "get_all_failed_tc m spylink jobtype w
           = (Return (PTuple [PDict kvs,
                              PInt (int (length cs) + int (length ms) + int (length ss)),
                              PDict [(PStr ''conformance'', PNone), (PStr ''monitor'', PNone),
                                     (PStr ''symptom_detection'', PNone)]]),
              w\<lparr>monitor_state := c\<rparr>)"
  using assms
  by (simp add: get_all_failed_tc_def invoke_eq get_all_failed_tc_try_def error_object_def)

text \<open>
  The theorem at the mapping
  \<^verbatim>\<open>{"conformance": ["a"], "monitor": [], "symptom_detection": ["b","c"]}\<close>: the count is 3.
\<close>

theorem get_all_failed_tc_counts_witness:
  "get_all_failed_tc
     (stub (Return (PDict [(PStr ''conformance'', PList [PStr ''a'']),
                           (PStr ''monitor'', PList []),
                           (PStr ''symptom_detection'', PList [PStr ''b'', PStr ''c''])]))
           (Raise AttributeError))
     ''link'' ''e2e'' \<lparr>PROW_URL = PNone, final_job_list = PList [], monitor_state = ()\<rparr>
   = (Return (PTuple [PDict [(PStr ''conformance'', PList [PStr ''a'']),
                             (PStr ''monitor'', PList []),
                             (PStr ''symptom_detection'', PList [PStr ''b'', PStr ''c''])],
                      PInt 3,
                      PDict [(PStr ''conformance'', PNone), (PStr ''monitor'', PNone),
                             (PStr ''symptom_detection'', PNone)]]),
      \<lparr>PROW_URL = PNone, final_job_list = PList [], monitor_state = ()\<rparr>)"
proof -
  let ?kvs = "[(PStr ''conformance'', PList [PStr ''a'']), (PStr ''monitor'', PList []),
               (PStr ''symptom_detection'', PList [PStr ''b'', PStr ''c''])]"
  let ?m = "stub (Return (PDict ?kvs)) (Raise AttributeError)"
  let ?w = "\<lparr>PROW_URL = PNone, final_job_list = PList [], monitor_state = ()\<rparr>"
  have h1: "call ?m ''get_all_failed_tc'' [PStr ''link'', PStr ''e2e''] [] (monitor_state ?w)
              = (Return (PDict ?kvs), ())"
    by (simp add: stub_def)
  have h2: "map_of ?kvs (PStr ''conformance'') = Some (PList [PStr ''a''])" by simp
  have h3: "map_of ?kvs (PStr ''monitor'') = Some (PList [])" by simp
  have h4: "map_of ?kvs (PStr ''symptom_detection'') = Some (PList [PStr ''b'', PStr ''c''])"
    by simp
  from get_all_failed_tc_counts [OF h1 h2 h3 h4] show ?thesis by simp
qed

section \<open>The sensitive-info check\<close>

text \<open>
  Claim C4. When the collaborator's \<^verbatim>\<open>check_if_sensitive_info_exposed\<close> raises an exception
  of any kind, the adapter raises a \<^verbatim>\<open>RuntimeError\<close>, and its message contains the string
  the generic error-to-value table has for that kind: \<^verbatim>\<open>"Request timed out"\<close> for a
  timeout, \<^verbatim>\<open>"Error while sending request to url"\<close> for a fetch error, \<^verbatim>\<open>"ERROR"\<close> for a
  parse error and for any other. Among the functions that catch (all but the five that
  forward), it is the only one whose failure is a raised error: with a collaborator call
  that raises, the adapter's call returns exactly when the function is not the
  sensitive-info check.
\<close>

theorem check_if_sensitive_info_exposed_reraises:
  "(call m ''check_if_sensitive_info_exposed'' [PStr spy_link] [] (monitor_state w) = (Raise e, c)
      \<longrightarrow> (\<exists>s msg. generic_legacy_value e = PStr s
            \<and> check_if_sensitive_info_exposed m spy_link w
                = (Raise (RuntimeError msg), w\<lparr>monitor_state := c\<rparr>)
            \<and> msg = ''Error in check_if_sensitive_info_exposed: '' @ s
            \<and> sublist s msg))
   \<and> (\<not> forwards req \<and> collaborator_call req = (name, args, kwargs)
        \<and> call m name args kwargs (monitor_state w) = (Raise e, c)
      \<longrightarrow> (is_return (fst (adapter_call m req w)) \<longleftrightarrow> \<not> reraises req))"
proof (intro conjI impI)
  let ?s = "by_kind ''Request timed out'' ''Error while sending request to url''
              ''ERROR'' ''ERROR'' e"
  let ?msg = "''Error in check_if_sensitive_info_exposed: '' @ ?s"
  assume h: "call m ''check_if_sensitive_info_exposed'' [PStr spy_link] [] (monitor_state w)
               = (Raise e, c)"
  have table: "generic_legacy_value e = PStr ?s"
    by (simp add: generic_legacy_value_def)
  have raised: "check_if_sensitive_info_exposed m spy_link w
                  = (Raise (RuntimeError ?msg), w\<lparr>monitor_state := c\<rparr>)"
    using h by (cases e) (simp_all add: check_if_sensitive_info_exposed_def invoke_eq)
  have inside: "sublist ?s ?msg"
    by (rule suffix_imp_sublist, rule suffixI, rule refl)
  from table raised inside
  show "\<exists>s msg. generic_legacy_value e = PStr s
            \<and> check_if_sensitive_info_exposed m spy_link w
                = (Raise (RuntimeError msg), w\<lparr>monitor_state := c\<rparr>)
            \<and> msg = ''Error in check_if_sensitive_info_exposed: '' @ s
            \<and> sublist s msg"
    by blast
next
  assume a: "\<not> forwards req \<and> collaborator_call req = (name, args, kwargs)
        \<and> call m name args kwargs (monitor_state w) = (Raise e, c)"
  then have a1: "\<not> forwards req"
    and a2: "collaborator_call req = (name, args, kwargs)"
    and a3: "call m name args kwargs (monitor_state w) = (Raise e, c)"
    by simp_all
  show "is_return (fst (adapter_call m req w)) \<longleftrightarrow> \<not> reraises req"
  proof (cases "reraises req")
    case True
    then obtain spy where "req = CheckIfSensitiveInfoExposed spy" by (cases req) simp_all
    with a2 a3 True show ?thesis
      by (simp add: check_if_sensitive_info_exposed_def invoke_eq)
  next
    case False
    with a1 have "catches_and_returns req" by (simp add: catches_and_returns_def)
    from adapter_call_catches [OF this a2 a3] False show ?thesis by simp
  qed
qed

text \<open>
  The theorem with a collaborator whose call raises, once for each kind of exception: the
  adapter raises the \<^verbatim>\<open>RuntimeError\<close> with the string of that kind in its message, and does
  not return.
\<close>

theorem check_if_sensitive_info_exposed_reraises_witness:
  "call (stub (Raise (ProwTimeoutError ''t'')) (Raise AttributeError))
        ''check_if_sensitive_info_exposed'' [PStr ''link''] [] (monitor_state \<lparr>PROW_URL = PNone, final_job_list = PList [], monitor_state = ()\<rparr>)
     = (Raise (ProwTimeoutError ''t''), ())
   \<and> \<not> forwards (CheckIfSensitiveInfoExposed ''link'')
   \<and> collaborator_call (CheckIfSensitiveInfoExposed ''link'')
       = (''check_if_sensitive_info_exposed'', [PStr ''link''], [])
   \<and> check_if_sensitive_info_exposed (stub (Raise (ProwTimeoutError ''t'')) (Raise AttributeError))
        ''link'' \<lparr>PROW_URL = PNone, final_job_list = PList [], monitor_state = ()\<rparr>
       = (Raise (RuntimeError ''Error in check_if_sensitive_info_exposed: Request timed out''),
          \<lparr>PROW_URL = PNone, final_job_list = PList [], monitor_state = ()\<rparr>)
   \<and> sublist ''Request timed out''
        ''Error in check_if_sensitive_info_exposed: Request timed out''
   \<and> check_if_sensitive_info_exposed (stub (Raise (ProwFetchError ''f'')) (Raise AttributeError))
        ''link'' \<lparr>PROW_URL = PNone, final_job_list = PList [], monitor_state = ()\<rparr>
       = (Raise (RuntimeError
            ''Error in check_if_sensitive_info_exposed: Error while sending request to url''),
          \<lparr>PROW_URL = PNone, final_job_list = PList [], monitor_state = ()\<rparr>)
   \<and> sublist ''Error while sending request to url''
        ''Error in check_if_sensitive_info_exposed: Error while sending request to url''
   \<and> check_if_sensitive_info_exposed (stub (Raise (ProwParseError ''p'')) (Raise AttributeError))
        ''link'' \<lparr>PROW_URL = PNone, final_job_list = PList [], monitor_state = ()\<rparr>
       = (Raise (RuntimeError ''Error in check_if_sensitive_info_exposed: ERROR''), \<lparr>PROW_URL = PNone, final_job_list = PList [], monitor_state = ()\<rparr>)
   \<and> check_if_sensitive_info_exposed (stub (Raise (OtherException ''o'')) (Raise AttributeError))
        ''link'' \<lparr>PROW_URL = PNone, final_job_list = PList [], monitor_state = ()\<rparr>
       = (Raise (RuntimeError ''Error in check_if_sensitive_info_exposed: ERROR''), \<lparr>PROW_URL = PNone, final_job_list = PList [], monitor_state = ()\<rparr>)
   \<and> sublist ''ERROR'' ''Error in check_if_sensitive_info_exposed: ERROR''
   \<and> \<not> is_return (fst (adapter_call (stub (Raise (ProwTimeoutError ''t'')) (Raise AttributeError))
            (CheckIfSensitiveInfoExposed ''link'') \<lparr>PROW_URL = PNone, final_job_list = PList [], monitor_state = ()\<rparr>))"
proof -
  let ?w = "\<lparr>PROW_URL = PNone, final_job_list = PList [], monitor_state = ()\<rparr>"
  have h: "call (stub (Raise x) (Raise AttributeError))
             ''check_if_sensitive_info_exposed'' [PStr ''link''] [] (monitor_state ?w)
             = (Raise x, ())" for x
    by (simp add: stub_def)
  have h2: "\<not> forwards (CheckIfSensitiveInfoExposed ''link'')" by simp
  have h3: "collaborator_call (CheckIfSensitiveInfoExposed ''link'')
              = (''check_if_sensitive_info_exposed'', [PStr ''link''], [])"
    by simp
  note at = check_if_sensitive_info_exposed_reraises
         [of _ "''link''" ?w _ "()" "CheckIfSensitiveInfoExposed ''link''"
             "''check_if_sensitive_info_exposed''" "[PStr ''link'']" "[]"]
  from at [of "stub (Raise (ProwTimeoutError ''t'')) (Raise AttributeError)"
              "ProwTimeoutError ''t''"]
       at [of "stub (Raise (ProwFetchError ''f'')) (Raise AttributeError)"
              "ProwFetchError ''f''"]
       at [of "stub (Raise (ProwParseError ''p'')) (Raise AttributeError)"
              "ProwParseError ''p''"]
       at [of "stub (Raise (OtherException ''o'')) (Raise AttributeError)"
              "OtherException ''o''"]
       h h2 h3
  show ?thesis
    by (simp add: generic_legacy_value_def)
qed

section \<open>Attribute mirroring\<close>

text \<open>
  Claim C5. \<^verbatim>\<open>_sync_module_attrs\<close> returns and does not raise; when reading the
  collaborator's \<^verbatim>\<open>PROW_URL\<close> raises, the adapter's \<^verbatim>\<open>PROW_URL\<close> is \<^verbatim>\<open>None\<close> afterwards, and
  when reading the collaborator's \<^verbatim>\<open>final_job_list\<close> raises, the adapter's
  \<^verbatim>\<open>final_job_list\<close> is the empty list. The same holds of loading the module.
\<close>

theorem sync_module_attrs_defaults:
  "fst (sync_module_attrs m w) = Return PNone
   \<and> (getattr m ''PROW_URL'' (monitor_state w) = Raise e1
        \<longrightarrow> PROW_URL (snd (sync_module_attrs m w)) = PNone)
   \<and> (getattr m ''final_job_list'' (monitor_state w) = Raise e2
        \<longrightarrow> final_job_list (snd (sync_module_attrs m w)) = PList [])
   \<and> fst (module_load m c) = Return PNone
   \<and> (getattr m ''PROW_URL'' c = Raise e1 \<longrightarrow> PROW_URL (snd (module_load m c)) = PNone)
   \<and> (getattr m ''final_job_list'' c = Raise e2
        \<longrightarrow> final_job_list (snd (module_load m c)) = PList [])"
  by (simp add: sync_module_attrs_def module_load_def Let_def split: result.splits)

text \<open>
  The theorem with a collaborator that has neither attribute, from a world in which both
  globals hold something else.
\<close>

theorem sync_module_attrs_defaults_witness:
  "getattr (stub (Return PNone) (Raise AttributeError)) ''PROW_URL'' () = Raise AttributeError
   \<and> getattr (stub (Return PNone) (Raise AttributeError)) ''final_job_list'' ()
       = Raise AttributeError
   \<and> sync_module_attrs (stub (Return PNone) (Raise AttributeError))
        \<lparr>PROW_URL = PStr ''old'', final_job_list = PList [PInt 1], monitor_state = ()\<rparr>
       = (Return PNone, \<lparr>PROW_URL = PNone, final_job_list = PList [], monitor_state = ()\<rparr>)
   \<and> module_load (stub (Return PNone) (Raise AttributeError)) () = (Return PNone, \<lparr>PROW_URL = PNone, final_job_list = PList [], monitor_state = ()\<rparr>)"
proof -
  let ?m = "stub (Return PNone) (Raise AttributeError)"
  let ?w = "\<lparr>PROW_URL = PStr ''old'', final_job_list = PList [PInt 1], monitor_state = ()\<rparr>"
  have h1: "getattr ?m ''PROW_URL'' () = Raise AttributeError" by (simp add: stub_def)
  have h2: "getattr ?m ''final_job_list'' () = Raise AttributeError" by (simp add: stub_def)
  have mono: "monitor_state (snd (sync_module_attrs ?m ?w)) = ()
              \<and> monitor_state (snd (module_load ?m ())) = ()"
    by simp
  from sync_module_attrs_defaults [of ?m ?w AttributeError AttributeError "()"] h1 h2 mono
  show ?thesis
    by (simp add: prod_eq_iff)
qed

section \<open>Operation-specific failure values\<close>

text \<open>
  Claim C6. Whatever exception the collaborator raises, \<^verbatim>\<open>get_lease\<close> returns the string
  \<^verbatim>\<open>"Failed to fetch lease information"\<close> and \<^verbatim>\<open>get_nightly\<close> returns
  \<^verbatim>\<open>"Unable to fetch nightly {platform} information - No match found"\<close> with the
  \<^verbatim>\<open>job_platform\<close> argument in place of \<^verbatim>\<open>{platform}\<close>.
\<close>

theorem lease_and_nightly_overrides:
  "(call m ''get_lease'' [build_log_response, PStr job_platform] [] (monitor_state w)
      = (Raise e, c)
      \<longrightarrow> get_lease m build_log_response job_platform w
            = (Return (PStr ''Failed to fetch lease information''), w\<lparr>monitor_state := c\<rparr>))
   \<and> (call m ''get_nightly'' [PStr build_log_url, build_log_response, PStr job_platform] []
         (monitor_state w) = (Raise e, c)
      \<longrightarrow> get_nightly m build_log_url build_log_response job_platform w
            = (Return (PStr (''Unable to fetch nightly '' @ job_platform
                              @ '' information - No match found'')),
               w\<lparr>monitor_state := c\<rparr>))"
  by (simp add: get_lease_def get_nightly_def invoke_eq)

text \<open>The theorem on the platform \<^verbatim>\<open>"powervs"\<close>, with a collaborator that times out.\<close>

theorem lease_and_nightly_overrides_witness:
  "call (stub (Raise (ProwTimeoutError ''t'')) (Raise AttributeError))
        ''get_lease'' [PStr ''log'', PStr ''powervs''] [] (monitor_state \<lparr>PROW_URL = PNone, final_job_list = PList [], monitor_state = ()\<rparr>)
     = (Raise (ProwTimeoutError ''t''), ())
   \<and> call (stub (Raise (ProwTimeoutError ''t'')) (Raise AttributeError))
        ''get_nightly'' [PStr ''url'', PStr ''log'', PStr ''powervs''] [] (monitor_state \<lparr>PROW_URL = PNone, final_job_list = PList [], monitor_state = ()\<rparr>)
     = (Raise (ProwTimeoutError ''t''), ())
   \<and> get_lease (stub (Raise (ProwTimeoutError ''t'')) (Raise AttributeError))
        (PStr ''log'') ''powervs'' \<lparr>PROW_URL = PNone, final_job_list = PList [], monitor_state = ()\<rparr>
     = (Return (PStr ''Failed to fetch lease information''), \<lparr>PROW_URL = PNone, final_job_list = PList [], monitor_state = ()\<rparr>)
   \<and> get_nightly (stub (Raise (ProwTimeoutError ''t'')) (Raise AttributeError))
        ''url'' (PStr ''log'') ''powervs'' \<lparr>PROW_URL = PNone, final_job_list = PList [], monitor_state = ()\<rparr>
     = (Return (PStr ''Unable to fetch nightly powervs information - No match found''), \<lparr>PROW_URL = PNone, final_job_list = PList [], monitor_state = ()\<rparr>)"
proof -
  let ?m = "stub (Raise (ProwTimeoutError ''t'')) (Raise AttributeError)"
  let ?w = "\<lparr>PROW_URL = PNone, final_job_list = PList [], monitor_state = ()\<rparr>"
  have h1: "call ?m ''get_lease'' [PStr ''log'', PStr ''powervs''] [] (monitor_state ?w)
              = (Raise (ProwTimeoutError ''t''), ())"
    by (simp add: stub_def)
  have h2: "call ?m ''get_nightly'' [PStr ''url'', PStr ''log'', PStr ''powervs''] []
              (monitor_state ?w) = (Raise (ProwTimeoutError ''t''), ())"
    by (simp add: stub_def)
  from lease_and_nightly_overrides
         [of ?m "PStr ''log''" "''powervs''" ?w "ProwTimeoutError ''t''" "()" "''url''"]
       h1 h2
  show ?thesis by simp
qed

text \<open>
  Claim C7. Whatever exception the collaborator raises, \<^verbatim>\<open>get_brief_job_info\<close> returns the
  empty list and \<^verbatim>\<open>get_detailed_job_info\<close> returns the integer 1.
\<close>

theorem job_info_failure_values:
  "(call m ''get_brief_job_info'' [build_list, prow_ci_name] [(''zone'', default_none zone)]
         (monitor_state w) = (Raise e, c)
      \<longrightarrow> get_brief_job_info m build_list prow_ci_name zone w
            = (Return (PList []), w\<lparr>monitor_state := c\<rparr>))
   \<and> (call m ''get_detailed_job_info'' [build_list, prow_ci_name] [(''zone'', default_none zone)]
         (monitor_state w) = (Raise e, c)
      \<longrightarrow> get_detailed_job_info m build_list prow_ci_name zone w
            = (Return (PInt 1), w\<lparr>monitor_state := c\<rparr>))"
  by (cases e; simp add: get_brief_job_info_def get_detailed_job_info_def invoke_eq)

text \<open>The theorem with a collaborator that raises a parse error, the zone left out.\<close>

theorem job_info_failure_values_witness:
  "call (stub (Raise (ProwParseError ''p'')) (Raise AttributeError))
        ''get_brief_job_info'' [PList [], PStr ''ci''] [(''zone'', default_none None)]
        (monitor_state \<lparr>PROW_URL = PNone, final_job_list = PList [], monitor_state = ()\<rparr>)
     = (Raise (ProwParseError ''p''), ())
   \<and> call (stub (Raise (ProwParseError ''p'')) (Raise AttributeError))
        ''get_detailed_job_info'' [PList [], PStr ''ci''] [(''zone'', default_none None)]
        (monitor_state \<lparr>PROW_URL = PNone, final_job_list = PList [], monitor_state = ()\<rparr>)
     = (Raise (ProwParseError ''p''), ())
   \<and> get_brief_job_info (stub (Raise (ProwParseError ''p'')) (Raise AttributeError))
        (PList []) (PStr ''ci'') None \<lparr>PROW_URL = PNone, final_job_list = PList [], monitor_state = ()\<rparr>
     = (Return (PList []), \<lparr>PROW_URL = PNone, final_job_list = PList [], monitor_state = ()\<rparr>)
   \<and> get_detailed_job_info (stub (Raise (ProwParseError ''p'')) (Raise AttributeError))
        (PList []) (PStr ''ci'') None \<lparr>PROW_URL = PNone, final_job_list = PList [], monitor_state = ()\<rparr>
     = (Return (PInt 1), \<lparr>PROW_URL = PNone, final_job_list = PList [], monitor_state = ()\<rparr>)"
proof -
  let ?m = "stub (Raise (ProwParseError ''p'')) (Raise AttributeError)"
  let ?w = "\<lparr>PROW_URL = PNone, final_job_list = PList [], monitor_state = ()\<rparr>"
  have h1: "call ?m ''get_brief_job_info'' [PList [], PStr ''ci'']
              [(''zone'', default_none None)] (monitor_state ?w)
              = (Raise (ProwParseError ''p''), ())"
    by (simp add: stub_def)
  have h2: "call ?m ''get_detailed_job_info'' [PList [], PStr ''ci'']
              [(''zone'', default_none None)] (monitor_state ?w)
              = (Raise (ProwParseError ''p''), ())"
    by (simp add: stub_def)
  from job_info_failure_values
         [of ?m "PList []" "PStr ''ci''" None ?w "ProwParseError ''p''" "()"]
       h1 h2
  show ?thesis by simp
qed

text \<open>
  Claim C10. Whatever exception the collaborator raises, \<^verbatim>\<open>check_testcase_failure\<close> returns
  the boolean \<^verbatim>\<open>False\<close>; it does not raise, and \<^verbatim>\<open>False\<close> is none of the kinds of legacy
  value the specification lists.
\<close>

theorem check_testcase_failure_returns_False:
  assumes "call m ''check_testcase_failure'' [PStr spylink, PStr job_type, PStr testcase_name] []
             (monitor_state w) = (Raise e, c)"
  shows "check_testcase_failure m spylink job_type testcase_name w
           = (Return (PBool False), w\<lparr>monitor_state := c\<rparr>)
         \<and> \<not> enumerated_legacy_kind (PBool False)"
  using assms by (simp add: check_testcase_failure_def invoke_eq)

text \<open>The theorem with a collaborator that raises an unclassified exception.\<close>

theorem check_testcase_failure_returns_False_witness:
  "call (stub (Raise (OtherException ''boom'')) (Raise AttributeError))
        ''check_testcase_failure'' [PStr ''link'', PStr ''e2e'', PStr ''tc''] []
        (monitor_state \<lparr>PROW_URL = PNone, final_job_list = PList [], monitor_state = ()\<rparr>)
     = (Raise (OtherException ''boom''), ())
   \<and> check_testcase_failure (stub (Raise (OtherException ''boom'')) (Raise AttributeError))
        ''link'' ''e2e'' ''tc'' \<lparr>PROW_URL = PNone, final_job_list = PList [], monitor_state = ()\<rparr>
     = (Return (PBool False), \<lparr>PROW_URL = PNone, final_job_list = PList [], monitor_state = ()\<rparr>)"
proof -
  let ?m = "stub (Raise (OtherException ''boom'')) (Raise AttributeError)"
  let ?w = "\<lparr>PROW_URL = PNone, final_job_list = PList [], monitor_state = ()\<rparr>"
  have h1: "call ?m ''check_testcase_failure'' [PStr ''link'', PStr ''e2e'', PStr ''tc''] []
              (monitor_state ?w) = (Raise (OtherException ''boom''), ())"
    by (simp add: stub_def)
  from check_testcase_failure_returns_False [OF h1] h1 show ?thesis by simp
qed

section \<open>The mirrored globals\<close>

lemma adapter_call_frame:
  "PROW_URL (snd (adapter_call m req w)) = PROW_URL w
   \<and> final_job_list (snd (adapter_call m req w)) = final_job_list w"
  by (simp add: adapter_call_state invoke_frame split: prod.splits)

lemma run_calls_frame:
  "PROW_URL (run_calls m reqs w) = PROW_URL w
   \<and> final_job_list (run_calls m reqs w) = final_job_list w"
  by (induction reqs arbitrary: w) (simp_all add: adapter_call_frame)

lemma observe_held_by_value: "held_by_value v \<Longrightarrow> observe m c v = v"
  by (cases v) (simp_all add: observe_def)

text \<open>
  Claim C8, as amended. The two globals are assigned only while the module loads: loading
  binds \<^verbatim>\<open>PROW_URL\<close> to what the collaborator's attribute is bound to at that moment, or to
  \<^verbatim>\<open>None\<close> when reading it raises, and \<^verbatim>\<open>final_job_list\<close> likewise, or to the empty list. No
  call of a wrapped function assigns either: after one call, and after any sequence of
  calls, whatever the collaborator did, both names are bound to the object they were
  bound to before. What a caller reads through a name bound to a value is therefore the
  same after the calls as before. Nothing is said of a name bound to a mutable object of
  the collaborator: what it reads is up to the collaborator.
\<close>

theorem mirrors_bound_at_load_only:
  "PROW_URL (snd (module_load m c))
     = (case getattr m ''PROW_URL'' c of Return v \<Rightarrow> v | Raise e \<Rightarrow> PNone)
   \<and> final_job_list (snd (module_load m c))
     = (case getattr m ''final_job_list'' c of Return v \<Rightarrow> v | Raise e \<Rightarrow> PList [])
   \<and> PROW_URL (snd (adapter_call m req w)) = PROW_URL w
   \<and> final_job_list (snd (adapter_call m req w)) = final_job_list w
   \<and> PROW_URL (run_calls m reqs w) = PROW_URL w
   \<and> final_job_list (run_calls m reqs w) = final_job_list w
   \<and> (held_by_value (PROW_URL w)
        \<longrightarrow> observe m (monitor_state (run_calls m reqs w)) (PROW_URL (run_calls m reqs w))
            = observe m (monitor_state w) (PROW_URL w))
   \<and> (held_by_value (final_job_list w)
        \<longrightarrow> observe m (monitor_state (run_calls m reqs w)) (final_job_list (run_calls m reqs w))
            = observe m (monitor_state w) (final_job_list w))"
proof -
  have load1: "PROW_URL (snd (module_load m c))
     = (case getattr m ''PROW_URL'' c of Return v \<Rightarrow> v | Raise e \<Rightarrow> PNone)"
    by (simp add: module_load_def sync_module_attrs_def Let_def split: result.splits)
  have load2: "final_job_list (snd (module_load m c))
     = (case getattr m ''final_job_list'' c of Return v \<Rightarrow> v | Raise e \<Rightarrow> PList [])"
    by (auto simp add: module_load_def sync_module_attrs_def Let_def split: result.splits)
  show ?thesis
    by (simp add: load1 load2 adapter_call_frame run_calls_frame observe_held_by_value)
qed

text \<open>
  The theorem with a collaborator that rebinds its own \<^verbatim>\<open>PROW_URL\<close>: loaded while that is
  \<^verbatim>\<open>"a"\<close>, the adapter still reads \<^verbatim>\<open>"a"\<close> after \<^verbatim>\<open>set_prow_url("b")\<close> and \<^verbatim>\<open>get_jobs("x")\<close>,
  though the collaborator's attribute is \<^verbatim>\<open>"b"\<close> by then.
\<close>

theorem mirrors_bound_at_load_only_witness:
  "held_by_value (PROW_URL (snd (module_load url_stub (PStr ''a''))))
   \<and> held_by_value (final_job_list (snd (module_load url_stub (PStr ''a''))))
   \<and> PROW_URL (snd (module_load url_stub (PStr ''a''))) = PStr ''a''
   \<and> final_job_list (snd (module_load url_stub (PStr ''a''))) = PList []
   \<and> observe url_stub
        (monitor_state (run_calls url_stub [SetProwUrl ''b'', GetJobs ''x'']
                          (snd (module_load url_stub (PStr ''a'')))))
        (PROW_URL (run_calls url_stub [SetProwUrl ''b'', GetJobs ''x'']
                          (snd (module_load url_stub (PStr ''a'')))))
       = PStr ''a''
   \<and> observe url_stub
        (monitor_state (run_calls url_stub [SetProwUrl ''b'', GetJobs ''x'']
                          (snd (module_load url_stub (PStr ''a'')))))
        (final_job_list (run_calls url_stub [SetProwUrl ''b'', GetJobs ''x'']
                          (snd (module_load url_stub (PStr ''a'')))))
       = PList []
   \<and> getattr url_stub ''PROW_URL''
        (monitor_state (run_calls url_stub [SetProwUrl ''b'', GetJobs ''x'']
                          (snd (module_load url_stub (PStr ''a'')))))
       = Return (PStr ''b'')"
proof -
  let ?w = "snd (module_load url_stub (PStr ''a''))"
  have w: "?w = \<lparr>PROW_URL = PStr ''a'', final_job_list = PList [],
                 monitor_state = PStr ''a''\<rparr>"
    by (simp add: module_load_def sync_module_attrs_def url_stub_def)
  have h1: "held_by_value (PROW_URL ?w)" by (simp add: w)
  have h2: "held_by_value (final_job_list ?w)" by (simp add: w)
  have after: "monitor_state (run_calls url_stub [SetProwUrl ''b'', GetJobs ''x''] ?w)
                 = PStr ''b''"
    by (simp add: w set_prow_url_def get_jobs_def invoke_def url_stub_def)
  from mirrors_bound_at_load_only
         [of url_stub "PStr ''a''" "SetProwUrl ''b''" ?w "[SetProwUrl ''b'', GetJobs ''x'']"]
       h1 h2
  have "observe url_stub
          (monitor_state (run_calls url_stub [SetProwUrl ''b'', GetJobs ''x''] ?w))
          (PROW_URL (run_calls url_stub [SetProwUrl ''b'', GetJobs ''x''] ?w))
        = observe url_stub (monitor_state ?w) (PROW_URL ?w)"
    and "observe url_stub
          (monitor_state (run_calls url_stub [SetProwUrl ''b'', GetJobs ''x''] ?w))
          (final_job_list (run_calls url_stub [SetProwUrl ''b'', GetJobs ''x''] ?w))
        = observe url_stub (monitor_state ?w) (final_job_list ?w)"
    by blast+
  moreover have "observe url_stub (monitor_state ?w) (PROW_URL ?w) = PStr ''a''"
    and "observe url_stub (monitor_state ?w) (final_job_list ?w) = PList []"
    by (simp_all add: w observe_def)
  moreover have "getattr url_stub ''PROW_URL'' (PStr ''b'') = Return (PStr ''b'')"
    by (simp add: url_stub_def)
  ultimately show ?thesis
    using h1 h2 after by (simp add: w)
qed

text \<open>
  The claim as first stated, that the values of the mirrors are unchanged by every
  adapter call, fails for \<^verbatim>\<open>final_job_list\<close> with a collaborator that keeps its job list in
  one list object and appends to it in place. Loaded while the list is empty, the
  adapter's \<^verbatim>\<open>final_job_list\<close> is that object; it reads \<^verbatim>\<open>[]\<close> before the call
  \<^verbatim>\<open>get_jobs("prow")\<close> and \<^verbatim>\<open>["job1"]\<close> after it, although the name is bound as before.
\<close>

theorem final_job_list_mirror_shares_list:
  "final_job_list (snd (module_load list_stub [])) = PRef 0
   \<and> observe list_stub (monitor_state (snd (module_load list_stub [])))
        (final_job_list (snd (module_load list_stub [])))
       = PList []
   \<and> fst (adapter_call list_stub (GetJobs ''prow'') (snd (module_load list_stub [])))
       = Return (PList [])
   \<and> final_job_list (snd (adapter_call list_stub (GetJobs ''prow'')
                            (snd (module_load list_stub []))))
       = PRef 0
   \<and> observe list_stub
        (monitor_state (snd (adapter_call list_stub (GetJobs ''prow'')
                               (snd (module_load list_stub [])))))
        (final_job_list (snd (adapter_call list_stub (GetJobs ''prow'')
                               (snd (module_load list_stub [])))))
       = PList [PStr ''job1'']
   \<and> observe list_stub
        (monitor_state (snd (adapter_call list_stub (GetJobs ''prow'')
                               (snd (module_load list_stub [])))))
        (final_job_list (snd (adapter_call list_stub (GetJobs ''prow'')
                               (snd (module_load list_stub [])))))
       \<noteq> observe list_stub (monitor_state (snd (module_load list_stub [])))
            (final_job_list (snd (module_load list_stub [])))"
  by (simp add: module_load_def sync_module_attrs_def get_jobs_def invoke_def list_stub_def
                observe_def)

section \<open>Attribute fallback\<close>

text \<open>
  Claim C9. Reading from the adapter a name that the module does not define (and that is
  not an attribute every module has) gives what reading the same name from the
  collaborator gives.
\<close>

theorem attribute_fallback:
  assumes "module_globals w name = None" and "interp name = None"
  shows "adapter_attribute interp m name w = getattr m name (monitor_state w)"
  using assms by (simp add: adapter_attribute_def module_getattr_def)

text \<open>The theorem at the name \<^verbatim>\<open>HTTP_TIMEOUT\<close>, which the collaborator binds to 30.\<close>

theorem attribute_fallback_witness:
  "module_globals \<lparr>PROW_URL = PNone, final_job_list = PList [], monitor_state = ()\<rparr> ''HTTP_TIMEOUT'' = None
   \<and> adapter_attribute (\<lambda>name. None) (stub (Raise AttributeError) (Return (PInt 30)))
        ''HTTP_TIMEOUT'' \<lparr>PROW_URL = PNone, final_job_list = PList [], monitor_state = ()\<rparr>
       = Return (PInt 30)"
proof -
  let ?w = "\<lparr>PROW_URL = PNone, final_job_list = PList [], monitor_state = ()\<rparr>"
  have h1: "module_globals ?w ''HTTP_TIMEOUT'' = None"
    by (simp add: module_globals_def bound_names_def)
  have h2: "(\<lambda>name::string. None::pyval option) ''HTTP_TIMEOUT'' = None" by simp
  from attribute_fallback [OF h1 h2, of "stub (Raise AttributeError) (Return (PInt 30))"] h1
  show ?thesis by (simp add: stub_def)
qed

end
